theory Spec2Isabelle
  imports Complex_Main "HOL-Library.Word"
begin

section \<open>Threshold matrix and alert evaluation (app.py)\<close>

text \<open>
  Rainfall amounts and thresholds are Python floats and integers; they are embedded as
  \<^typ>\<open>real\<close>, so comparisons are the exact ones the program makes and sums carry no
  rounding. A missing value (NaN) is not a number of the model.

  One row of \<^verbatim>\<open>umbrales_df\<close>: the columns the dashboard reads. The data frame is the
  list of its rows, in file order.
\<close>

record umbral =
  Amenaza_Nivel :: string
  Umbral_Verde_mm :: real
  Umbral_Amarillo_mm :: real
  Umbral_Rojo_mm :: real

definition umbrales_por_defecto :: "umbral list" where
  "umbrales_por_defecto =
     [\<lparr>Amenaza_Nivel = ''Muy Baja'', Umbral_Verde_mm = 200, Umbral_Amarillo_mm = 250, Umbral_Rojo_mm = 300\<rparr>,
      \<lparr>Amenaza_Nivel = ''Baja'', Umbral_Verde_mm = 150, Umbral_Amarillo_mm = 200, Umbral_Rojo_mm = 250\<rparr>,
      \<lparr>Amenaza_Nivel = ''Media'', Umbral_Verde_mm = 120, Umbral_Amarillo_mm = 150, Umbral_Rojo_mm = 200\<rparr>,
      \<lparr>Amenaza_Nivel = ''Alta'', Umbral_Verde_mm = 80, Umbral_Amarillo_mm = 100, Umbral_Rojo_mm = 120\<rparr>,
      \<lparr>Amenaza_Nivel = ''Muy Alta'', Umbral_Verde_mm = 60, Umbral_Amarillo_mm = 80, Umbral_Rojo_mm = 100\<rparr>]"

text \<open>
  \<^verbatim>\<open>cargar_umbrales\<close>: the CSV file when it exists (\<open>Some\<close> of its rows), the built-in
  matrix on \<^verbatim>\<open>FileNotFoundError\<close>.
\<close>

definition cargar_umbrales :: "umbral list option \<Rightarrow> umbral list" where
  "cargar_umbrales csv = (case csv of Some df \<Rightarrow> df | None \<Rightarrow> umbrales_por_defecto)"

text \<open>The three emoji of the alert column, as their UTF-8 bytes.\<close>

definition emoji_verde :: string where
  "emoji_verde = [CHR 0xF0, CHR 0x9F, CHR 0x9F, CHR 0xA2]"

definition emoji_amarilla :: string where
  "emoji_amarilla = [CHR 0xF0, CHR 0x9F, CHR 0x9F, CHR 0xA1]"

definition emoji_roja :: string where
  "emoji_roja = [CHR 0xF0, CHR 0x9F, CHR 0x94, CHR 0xB4]"

text \<open>
  \<^verbatim>\<open>calcular_nivel_alerta(amenaza, lluvia_72h, umbrales_df)\<close>. The boolean-mask selection
  \<^verbatim>\<open>umbrales_df[umbrales_df['Amenaza_Nivel'] == amenaza]\<close> is \<^const>\<open>filter\<close>;
  \<^verbatim>\<open>.empty\<close> is the empty list and \<^verbatim>\<open>.values[0]\<close> the first selected row.
\<close>

definition calcular_nivel_alerta :: "string \<Rightarrow> real \<Rightarrow> umbral list \<Rightarrow> string \<times> string \<times> nat" where
  "calcular_nivel_alerta amenaza lluvia_72h umbrales_df =
     (case filter (\<lambda>r. Amenaza_Nivel r = amenaza) umbrales_df of
        [] \<Rightarrow> (''VERDE'', emoji_verde, 0)
      | fila # _ \<Rightarrow>
          (let umbral_rojo = Umbral_Rojo_mm fila;
               umbral_amarillo = Umbral_Amarillo_mm fila
           in if lluvia_72h \<ge> umbral_rojo then (''ROJA'', emoji_roja, 3)
              else if lluvia_72h \<ge> umbral_amarillo then (''AMARILLA'', emoji_amarilla, 2)
              else (''VERDE'', emoji_verde, 1)))"

text \<open>
  \<^verbatim>\<open>calcular_alerta_temporal(lluvia, amenaza)\<close>, the closure of the tower page; the
  \<^verbatim>\<open>umbrales_df\<close> it captures is its first argument here.
\<close>

definition calcular_alerta_temporal :: "umbral list \<Rightarrow> real \<Rightarrow> string \<Rightarrow> string" where
  "calcular_alerta_temporal umbrales_df lluvia amenaza =
     (case filter (\<lambda>r. Amenaza_Nivel r = amenaza) umbrales_df of
        [] \<Rightarrow> ''VERDE''
      | fila # _ \<Rightarrow>
          (let umbral_rojo = Umbral_Rojo_mm fila;
               umbral_amarillo = Umbral_Amarillo_mm fila
           in if lluvia \<ge> umbral_rojo then ''ROJA''
              else if lluvia \<ge> umbral_amarillo then ''AMARILLA''
              else ''VERDE''))"

section \<open>Rolling 72-hour accumulation and dwell-time statistics (app.py)\<close>

text \<open>
  Modelled from the spec: \<^verbatim>\<open>Series.rolling(window, min_periods).sum()\<close> is pandas code,
  outside the repository. The spec asks for a single forward pass with an internal running sum
  over the trailing window, using however many samples are available while fewer than
  \<open>window\<close> have elapsed. That is the pass pandas makes for a fixed window: entry \<open>i\<close>
  covers the samples \<open>start i \<le> j < end i\<close> with \<open>end i = i + 1\<close> and
  \<open>start i = max 0 (i + 1 - window)\<close>; the samples that left the window since the
  previous entry are removed from the running sum and the new ones added; the entry is the
  running sum when at least \<open>min_periods\<close> samples are in the window and NaN (\<open>None\<close>)
  otherwise. Samples are numbers: a NaN sample is outside the model.
\<close>

definition window_start :: "nat \<Rightarrow> nat \<Rightarrow> nat" where
  "window_start window i = (if i + 1 \<ge> window then i + 1 - window else 0)"

definition window_end :: "nat \<Rightarrow> nat" where
  "window_end i = i + 1"

fun add_sum :: "real \<Rightarrow> nat \<times> real \<Rightarrow> nat \<times> real" where
  "add_sum val (nobs, sum_x) = (nobs + 1, sum_x + val)"

fun remove_sum :: "real \<Rightarrow> nat \<times> real \<Rightarrow> nat \<times> real" where
  "remove_sum val (nobs, sum_x) = (nobs - 1, sum_x - val)"

fun calc_sum :: "nat \<Rightarrow> nat \<times> real \<Rightarrow> real option" where
  "calc_sum minp (nobs, sum_x) = (if nobs \<ge> minp then Some sum_x else None)"

text \<open>One entry of the pass: the state \<open>(nobs, sum_x)\<close> after moving the window to \<open>i\<close>.\<close>

definition roll_step :: "real list \<Rightarrow> nat \<Rightarrow> nat \<times> real \<Rightarrow> nat \<Rightarrow> nat \<times> real" where
  "roll_step values window st i =
     (let s = window_start window i; e = window_end i
      in if i = 0 \<or> s \<ge> window_end (i - 1)
         then fold (\<lambda>j. add_sum (values ! j)) [s..<e] (0, 0)
         else fold (\<lambda>j. add_sum (values ! j)) [window_end (i - 1)..<e]
                (fold (\<lambda>j. remove_sum (values ! j)) [window_start window (i - 1)..<s] st))"

fun roll_sum :: "real list \<Rightarrow> nat \<Rightarrow> nat \<Rightarrow> nat \<times> real \<Rightarrow> nat list \<Rightarrow> real option list" where
  "roll_sum values window minp st [] = []"
| "roll_sum values window minp st (i # rest) =
     (let st' = roll_step values window st i
      in calc_sum minp st' # roll_sum values window minp st' rest)"

definition rolling_sum :: "nat \<Rightarrow> nat \<Rightarrow> real list \<Rightarrow> real option list" where
  "rolling_sum window min_periods values =
     roll_sum values window min_periods (0, 0) [0..<length values]"

text \<open>
  The tower page: \<^verbatim>\<open>df_lluvia_torre['precip_acum_72h']\<close> is the rolling sum with
  \<^verbatim>\<open>window=72, min_periods=1\<close> of the hourly precipitation column.
\<close>

definition precip_acum_72h :: "real list \<Rightarrow> real option list" where
  "precip_acum_72h precipitation = rolling_sum 72 1 precipitation"

text \<open>
  \<^verbatim>\<open>df_lluvia_torre['precip_acum_72h'].apply(lambda x: calcular_alerta_temporal(x, amenaza))\<close>.
  A NaN entry compares false with both boundaries, so the evaluator answers VERDE for it,
  with or without a row for the level.
\<close>

definition nivel_alerta_temporal :: "umbral list \<Rightarrow> string \<Rightarrow> real list \<Rightarrow> string list" where
  "nivel_alerta_temporal umbrales_df amenaza precipitation =
     map (\<lambda>x. case x of Some lluvia \<Rightarrow> calcular_alerta_temporal umbrales_df lluvia amenaza
                       | None \<Rightarrow> ''VERDE'')
         (precip_acum_72h precipitation)"

text \<open>
  The period statistics: \<^verbatim>\<open>(df['nivel_alerta_temporal'] == nivel).sum()\<close> counts the hours
  in a state, and the share shown beside it is \<^verbatim>\<open>tiempo / total_horas * 100\<close>.
\<close>

definition tiempo :: "string \<Rightarrow> string list \<Rightarrow> nat" where
  "tiempo nivel alertas = length (filter (\<lambda>a. a = nivel) alertas)"

definition porcentaje :: "nat \<Rightarrow> nat \<Rightarrow> real" where
  "porcentaje horas total_horas = real horas / real total_horas * 100"

text \<open>
  The rainfall of the end-to-end scenario: 2 mm in each of the first 72 hours, then \<open>m\<close>
  dry hours.
\<close>

definition lluvia_escenario :: "nat \<Rightarrow> real list" where
  "lluvia_escenario m = replicate 72 2 @ replicate m 0"

section \<open>Offline raster pipeline (procesar_raster.py)\<close>

text \<open>
  What the pipeline reads from and writes to a raster file: band 1 as a list of rows (a
  2-D array in row-major order), the NoData sentinel (\<open>None\<close> when the file declares
  none), the affine transform from pixel to map coordinates and the coordinate reference
  system. The six coefficients of the transform map pixel \<open>(col, row)\<close> to
  \<open>(a * col + b * row + c, d * col + e * row + f)\<close>.
\<close>

record affine =
  coef_a :: real
  coef_b :: real
  coef_c :: real
  coef_d :: real
  coef_e :: real
  coef_f :: real

record 'a raster =
  band1 :: "'a list list"
  nodata :: "'a option"
  transform :: affine
  crs :: string

definition height :: "'a raster \<Rightarrow> nat" where
  "height g = length (band1 g)"

definition width :: "'a raster \<Rightarrow> nat" where
  "width g = (case band1 g of [] \<Rightarrow> 0 | fila # _ \<Rightarrow> length fila)"

text \<open>Every row of a 2-D array has the array's width.\<close>

definition rectangular :: "'a raster \<Rightarrow> bool" where
  "rectangular g = list_all (\<lambda>fila. length fila = width g) (band1 g)"

text \<open>
  The exceptions a step of the pipeline can end in: \<open>IndexError\<close> and \<open>ValueError\<close> from
  numpy, Python's \<open>TypeError\<close>, and \<open>TransformNotInvertibleError\<close> from the affine
  transform. \<open>EmptyDistributionError\<close> is the name the design document gives to a
  classification without valid cells; the program defines no such exception and no
  function below returns it.
\<close>

datatype error =
  IndexError | ValueError | TypeError | TransformNotInvertibleError | EmptyDistributionError

subsection \<open>Classification by quantiles\<close>

text \<open>
  Modelled from the spec: \<^verbatim>\<open>np.quantile\<close> is numpy code, outside the
  repository. The spec takes the thresholds at the 33rd and 66th percentiles of the
  non-NoData values. The percentile is numpy's default one: with the values sorted,
  position \<open>q * (n - 1)\<close> is interpolated linearly between the two order statistics
  around it. A quantile outside \<open>[0, 1]\<close> is refused with \<open>ValueError\<close>, and on an empty
  array numpy reads the last element of nothing and raises \<open>IndexError\<close>.
\<close>

definition np_quantile :: "real list \<Rightarrow> real \<Rightarrow> error + real" where
  "np_quantile arr q =
     (if q < 0 \<or> q > 1 then Inl ValueError
      else if arr = [] then Inl IndexError
      else
        (let sorted_arr = sort arr;
             n = length arr;
             virtual_index = q * real (n - 1);
             previous_index = nat \<lfloor>virtual_index\<rfloor>;
             next_index = min (previous_index + 1) (n - 1);
             gamma = virtual_index - real previous_index
         in Inr (sorted_arr ! previous_index
                 + gamma * (sorted_arr ! next_index - sorted_arr ! previous_index))))"

text \<open>
  One cell of \<^verbatim>\<open>classified_data\<close>: zero, then the three masked assignments in the order
  the program makes them, a later one overwriting an earlier one.
\<close>

definition clasificar_celda :: "real \<Rightarrow> real \<Rightarrow> real \<Rightarrow> real \<Rightarrow> 8 word" where
  "clasificar_celda NoData_value umbral_bajo umbral_alto x =
     (let c0 = 0;
          c1 = (if x > NoData_value \<and> x \<le> umbral_bajo then 1 else c0);
          c2 = (if x > umbral_bajo \<and> x \<le> umbral_alto then 2 else c1);
          c3 = (if x > umbral_alto then 3 else c2)
      in c3)"

text \<open>
  \<^verbatim>\<open>clasificar_raster_amenaza\<close>: the result is the raster written to \<^verbatim>\<open>ruta_out\<close> (the
  profile of the input with \<^verbatim>\<open>dtype=uint8, nodata=0\<close>) together with the two thresholds
  returned. \<^verbatim>\<open>data[data != NoData_value]\<close> keeps, in row-major order, the cells that differ
  from the sentinel; with no sentinel declared the comparison with \<^verbatim>\<open>None\<close> keeps every
  cell, and the later \<^verbatim>\<open>data > NoData_value\<close> is a \<^verbatim>\<open>TypeError\<close>.
\<close>

definition clasificar_raster_amenaza :: "real raster \<Rightarrow> error + (8 word raster \<times> real \<times> real)" where
  "clasificar_raster_amenaza src =
     (let data = band1 src;
          valores_reales = filter (\<lambda>x. Some x \<noteq> nodata src) (concat data)
      in case np_quantile valores_reales 0.33 of
           Inl err \<Rightarrow> Inl err
         | Inr umbral_bajo \<Rightarrow>
             (case np_quantile valores_reales 0.66 of
                Inl err \<Rightarrow> Inl err
              | Inr umbral_alto \<Rightarrow>
                  (case nodata src of
                     None \<Rightarrow> Inl TypeError
                   | Some NoData_value \<Rightarrow>
                       Inr (\<lparr>band1 = map (map (clasificar_celda NoData_value umbral_bajo umbral_alto)) data,
                             nodata = Some 0,
                             transform = transform src,
                             crs = crs src\<rparr>,
                            umbral_bajo, umbral_alto))))"

subsection \<open>Reprojection to WGS84\<close>

text \<open>The cell at a pixel position, when the position is inside the grid.\<close>

definition celda :: "'a raster \<Rightarrow> int \<Rightarrow> int \<Rightarrow> 'a option" where
  "celda g row col =
     (if 0 \<le> row \<and> row < int (height g) \<and> 0 \<le> col \<and> col < int (width g)
      then Some (band1 g ! nat row ! nat col) else None)"

text \<open>The value rasterio writes where there is no data: \<^verbatim>\<open>dataset.nodata or 0\<close>.\<close>

definition nodata_or_0 :: "'a::zero raster \<Rightarrow> 'a" where
  "nodata_or_0 g = (case nodata g of Some v \<Rightarrow> v | None \<Rightarrow> 0)"

text \<open>
  Modelled from the spec: \<^verbatim>\<open>calculate_default_transform\<close> and \<^verbatim>\<open>reproject\<close> are rasterio
  code, outside the repository. The spec has the destination geometry (transform, width, height)
  computed to cover the source extent in the target system, and every cell resampled by
  nearest neighbour only: a destination cell takes the value of one source cell, never a
  value computed from several. The geometry and, for each destination cell, the pixel
  position of the source cell nearest to it are results of the coordinate transformation
  and are taken as given (\<open>warp\<close>). Where that position lies outside the source grid there
  is no source cell to take, and the destination cell keeps the NoData fill.
\<close>

record warp =
  dst_transform :: affine
  dst_width :: nat
  dst_height :: nat
  nearest :: "nat \<Rightarrow> nat \<Rightarrow> int \<times> int"

definition reproject :: "'a::zero raster \<Rightarrow> warp \<Rightarrow> 'a list list" where
  "reproject src w =
     map (\<lambda>row. map (\<lambda>col. case celda src (fst (nearest w row col)) (snd (nearest w row col)) of
                             Some v \<Rightarrow> v
                           | None \<Rightarrow> nodata_or_0 src)
                    [0..<dst_width w])
         [0..<dst_height w]"

text \<open>
  \<^verbatim>\<open>reproyectar_raster_wgs84\<close>: the raster written to \<^verbatim>\<open>ruta_out\<close>. Its metadata are
  \<^verbatim>\<open>src.meta.copy()\<close> with the coordinate system, transform, width and height replaced; the
  NoData sentinel is among the entries left as they are.
\<close>

definition reproyectar_raster_wgs84 :: "warp \<Rightarrow> 'a::zero raster \<Rightarrow> 'a raster" where
  "reproyectar_raster_wgs84 w src =
     \<lparr>band1 = reproject src w,
      nodata = nodata src,
      transform = dst_transform w,
      crs = ''EPSG:4326''\<rparr>"

subsection \<open>Sampling the raster at the towers\<close>

record torre =
  ID_Torre :: string
  Nombre :: string
  Latitud :: real
  Longitud :: real

definition torres_de_ejemplo :: "torre list" where
  "torres_de_ejemplo =
     [\<lparr>ID_Torre = ''TORRE_001'', Nombre = ''Torre Norte'', Latitud = 7.08, Longitud = -72.25\<rparr>,
      \<lparr>ID_Torre = ''TORRE_002'', Nombre = ''Torre Sur'', Latitud = 7.10, Longitud = -72.28\<rparr>,
      \<lparr>ID_Torre = ''TORRE_003'', Nombre = ''Torre Este'', Latitud = 6.356094, Longitud = -70.825931\<rparr>,
      \<lparr>ID_Torre = ''TORRE_004'', Nombre = ''Torre Oeste'', Latitud = 7.05, Longitud = -72.20\<rparr>]"

text \<open>
  Modelled from the spec: \<^verbatim>\<open>DatasetReader.sample\<close> is rasterio code, outside the
  repository. The
  spec returns one cell value per query point by nearest-cell lookup, without
  interpolation, and the grid's NoData sentinel, rather than an error, for a point outside
  the grid. The lookup inverts the affine transform and takes the floor of the pixel
  coordinates: \<open>rowcol\<close>. A transform with determinant 0 has no inverse.
\<close>

definition rowcol :: "affine \<Rightarrow> real \<Rightarrow> real \<Rightarrow> error + (int \<times> int)" where
  "rowcol t x y =
     (let det = coef_a t * coef_e t - coef_b t * coef_d t
      in if det = 0 then Inl TransformNotInvertibleError
         else
           (let fcol = (coef_e t * (x - coef_c t) - coef_b t * (y - coef_f t)) / det;
                frow = (coef_a t * (y - coef_f t) - coef_d t * (x - coef_c t)) / det
            in Inr (\<lfloor>frow\<rfloor>, \<lfloor>fcol\<rfloor>)))"

definition sample :: "'a::zero raster \<Rightarrow> real \<times> real \<Rightarrow> error + 'a" where
  "sample g xy =
     (case rowcol (transform g) (fst xy) (snd xy) of
        Inl err \<Rightarrow> Inl err
      | Inr (row_off, col_off) \<Rightarrow>
          (if row_off < 0 \<or> col_off < 0 \<or> row_off \<ge> int (height g) \<or> col_off \<ge> int (width g)
           then Inr (nodata_or_0 g)
           else Inr (band1 g ! nat row_off ! nat col_off)))"

fun sample_all :: "'a::zero raster \<Rightarrow> (real \<times> real) list \<Rightarrow> error + 'a list" where
  "sample_all g [] = Inr []"
| "sample_all g (xy # rest) =
     (case sample g xy of
        Inl err \<Rightarrow> Inl err
      | Inr v \<Rightarrow> (case sample_all g rest of Inl err \<Rightarrow> Inl err | Inr vs \<Rightarrow> Inr (v # vs)))"

text \<open>
  The dictionary \<^verbatim>\<open>mapa_amenaza\<close>; \<^verbatim>\<open>Series.map\<close> gives NaN (\<open>None\<close>) for a value that
  is not a key.
\<close>

definition mapa_amenaza :: "8 word \<Rightarrow> string option" where
  "mapa_amenaza v =
     (if v = 1 then Some ''Baja'' else if v = 2 then Some ''Media''
      else if v = 3 then Some ''Alta'' else if v = 0 then Some ''Sin Datos'' else None)"

text \<open>
  \<^verbatim>\<open>extraer_valores_torres\<close>: the towers of the CSV file, or the four example towers on
  \<^verbatim>\<open>FileNotFoundError\<close>; each is sampled at \<open>(Longitud, Latitud)\<close>. The result is the table
  written to \<^verbatim>\<open>ruta_salida\<close>: each tower with its \<^verbatim>\<open>Amenaza_Valor\<close> and the label of
  that value.
\<close>

definition extraer_valores_torres ::
    "torre list option \<Rightarrow> 8 word raster \<Rightarrow> error + (torre \<times> 8 word \<times> string option) list" where
  "extraer_valores_torres csv src =
     (let torres_df = (case csv of Some df \<Rightarrow> df | None \<Rightarrow> torres_de_ejemplo);
          coords = map (\<lambda>t. (Longitud t, Latitud t)) torres_df
      in case sample_all src coords of
           Inl err \<Rightarrow> Inl err
         | Inr valores_raster \<Rightarrow>
             Inr (map (\<lambda>(t, v). (t, v, mapa_amenaza v)) (zip torres_df valores_raster)))"

text \<open>
  \<^verbatim>\<open>pipeline_completo\<close>: the three steps in order. An exception of a step is printed and
  raised again, so it is the result of the pipeline.
\<close>

definition pipeline_completo ::
    "real raster \<Rightarrow> warp \<Rightarrow> torre list option
       \<Rightarrow> error + (torre \<times> 8 word \<times> string option) list" where
  "pipeline_completo src w csv =
     (case clasificar_raster_amenaza src of
        Inl err \<Rightarrow> Inl err
      | Inr (clasificado, umbral_bajo, umbral_alto) \<Rightarrow>
          extraer_valores_torres csv (reproyectar_raster_wgs84 w clasificado))"

text \<open>
  The map extent a north-up grid covers, from its transform and size: the bounds rasterio
  reports for the dataset.
\<close>

definition north_up :: "affine \<Rightarrow> bool" where
  "north_up t = (coef_b t = 0 \<and> coef_d t = 0 \<and> coef_a t > 0 \<and> coef_e t < 0)"

definition fuera_de_extension :: "'a raster \<Rightarrow> real \<times> real \<Rightarrow> bool" where
  "fuera_de_extension g xy =
     (let left = coef_c (transform g);
          top = coef_f (transform g);
          right = left + coef_a (transform g) * real (width g);
          bottom = top + coef_e (transform g) * real (height g)
      in fst xy < left \<or> fst xy > right \<or> snd xy > top \<or> snd xy < bottom)"

text \<open>A north-up transform with unit pixels and its origin at 0, for concrete grids.\<close>

definition pixel_unidad :: affine where
  "pixel_unidad = \<lparr>coef_a = 1, coef_b = 0, coef_c = 0, coef_d = 0, coef_e = -1, coef_f = 0\<rparr>"

section \<open>Properties of the alert evaluation\<close>

lemma filter_find_None: "find P xs = None \<Longrightarrow> filter P xs = []"
  by (induction xs) (auto split: if_splits)

lemma filter_find_Some: "find P xs = Some x \<Longrightarrow> \<exists>ys. filter P xs = x # ys"
  by (induction xs) (auto split: if_splits)

lemma find_absent: "amenaza \<notin> Amenaza_Nivel ` set df \<Longrightarrow> find (\<lambda>r. Amenaza_Nivel r = amenaza) df = None"
  by (induction df) auto

lemma nivel_fila:
  assumes "find (\<lambda>r. Amenaza_Nivel r = amenaza) df = Some fila"
  shows "calcular_nivel_alerta amenaza v df =
     (if v \<ge> Umbral_Rojo_mm fila then (''ROJA'', emoji_roja, 3)
      else if v \<ge> Umbral_Amarillo_mm fila then (''AMARILLA'', emoji_amarilla, 2)
      else (''VERDE'', emoji_verde, 1))"
proof -
  obtain ys where "filter (\<lambda>r. Amenaza_Nivel r = amenaza) df = fila # ys"
    using filter_find_Some [OF assms] by blast
  then show ?thesis
    by (simp add: calcular_nivel_alerta_def)
qed

lemma temporal_fila:
  assumes "find (\<lambda>r. Amenaza_Nivel r = amenaza) df = Some fila"
  shows "calcular_alerta_temporal df v amenaza =
     (if v \<ge> Umbral_Rojo_mm fila then ''ROJA''
      else if v \<ge> Umbral_Amarillo_mm fila then ''AMARILLA''
      else ''VERDE'')"
proof -
  obtain ys where "filter (\<lambda>r. Amenaza_Nivel r = amenaza) df = fila # ys"
    using filter_find_Some [OF assms] by blast
  then show ?thesis
    by (simp add: calcular_alerta_temporal_def)
qed

lemma find_media_defecto:
  "find (\<lambda>r. Amenaza_Nivel r = ''Media'') umbrales_por_defecto =
     Some \<lparr>Amenaza_Nivel = ''Media'', Umbral_Verde_mm = 120, Umbral_Amarillo_mm = 150, Umbral_Rojo_mm = 200\<rparr>"
  by (simp add: umbrales_por_defecto_def)

text \<open>
  C1. When the threshold matrix has a row for the hazard level (the first one, where the
  name repeats), both evaluators test the red boundary first, then the yellow one: ROJA
  when the value reaches the red boundary, otherwise AMARILLA when it reaches the yellow
  boundary, otherwise VERDE. So a value at or above both boundaries is ROJA whatever the
  row holds, also when the yellow boundary exceeds the red one. With the built-in matrix
  (Media: yellow 150, red 200) the value 200 is ROJA, 199.999 is AMARILLA and 149.999 is
  VERDE.
\<close>

theorem C1_descending_threshold_order:
  "(find (\<lambda>r. Amenaza_Nivel r = amenaza) umbrales_df = Some fila \<longrightarrow>
      calcular_nivel_alerta amenaza v umbrales_df =
        (if v \<ge> Umbral_Rojo_mm fila then (''ROJA'', emoji_roja, 3)
         else if v \<ge> Umbral_Amarillo_mm fila then (''AMARILLA'', emoji_amarilla, 2)
         else (''VERDE'', emoji_verde, 1)) \<and>
      calcular_alerta_temporal umbrales_df v amenaza =
        (if v \<ge> Umbral_Rojo_mm fila then ''ROJA''
         else if v \<ge> Umbral_Amarillo_mm fila then ''AMARILLA''
         else ''VERDE'') \<and>
      (v \<ge> Umbral_Rojo_mm fila \<and> v \<ge> Umbral_Amarillo_mm fila \<longrightarrow>
         fst (calcular_nivel_alerta amenaza v umbrales_df) = ''ROJA'' \<and>
         calcular_alerta_temporal umbrales_df v amenaza = ''ROJA'')) \<and>
   fst (calcular_nivel_alerta ''Media'' 200 (cargar_umbrales None)) = ''ROJA'' \<and>
   fst (calcular_nivel_alerta ''Media'' 199.999 (cargar_umbrales None)) = ''AMARILLA'' \<and>
   fst (calcular_nivel_alerta ''Media'' 149.999 (cargar_umbrales None)) = ''VERDE'' \<and>
   calcular_alerta_temporal (cargar_umbrales None) 200 ''Media'' = ''ROJA'' \<and>
   calcular_alerta_temporal (cargar_umbrales None) 199.999 ''Media'' = ''AMARILLA'' \<and>
   calcular_alerta_temporal (cargar_umbrales None) 149.999 ''Media'' = ''VERDE''"
proof -
  have general: "find (\<lambda>r. Amenaza_Nivel r = amenaza) umbrales_df = Some fila \<longrightarrow>
      calcular_nivel_alerta amenaza v umbrales_df =
        (if v \<ge> Umbral_Rojo_mm fila then (''ROJA'', emoji_roja, 3)
         else if v \<ge> Umbral_Amarillo_mm fila then (''AMARILLA'', emoji_amarilla, 2)
         else (''VERDE'', emoji_verde, 1)) \<and>
      calcular_alerta_temporal umbrales_df v amenaza =
        (if v \<ge> Umbral_Rojo_mm fila then ''ROJA''
         else if v \<ge> Umbral_Amarillo_mm fila then ''AMARILLA''
         else ''VERDE'') \<and>
      (v \<ge> Umbral_Rojo_mm fila \<and> v \<ge> Umbral_Amarillo_mm fila \<longrightarrow>
         fst (calcular_nivel_alerta amenaza v umbrales_df) = ''ROJA'' \<and>
         calcular_alerta_temporal umbrales_df v amenaza = ''ROJA'')"
    by (simp add: nivel_fila temporal_fila)
  have media: "cargar_umbrales None = umbrales_por_defecto"
    by (simp add: cargar_umbrales_def)
  note n = nivel_fila [OF find_media_defecto] and t = temporal_fila [OF find_media_defecto]
  have "fst (calcular_nivel_alerta ''Media'' 200 umbrales_por_defecto) = ''ROJA''"
    and "fst (calcular_nivel_alerta ''Media'' 199.999 umbrales_por_defecto) = ''AMARILLA''"
    and "fst (calcular_nivel_alerta ''Media'' 149.999 umbrales_por_defecto) = ''VERDE''"
    and "calcular_alerta_temporal umbrales_por_defecto 200 ''Media'' = ''ROJA''"
    and "calcular_alerta_temporal umbrales_por_defecto 199.999 ''Media'' = ''AMARILLA''"
    and "calcular_alerta_temporal umbrales_por_defecto 149.999 ''Media'' = ''VERDE''"
    by (simp_all add: n t)
  with general media show ?thesis by simp
qed

text \<open>
  The first conjunct at a malformed row, yellow boundary 300 above red boundary 100: the
  value 350 is at or above both and is ROJA.
\<close>

theorem C1_descending_threshold_order_witness:
  "find (\<lambda>r. Amenaza_Nivel r = ''Media'')
     [\<lparr>Amenaza_Nivel = ''Media'', Umbral_Verde_mm = 50, Umbral_Amarillo_mm = 300, Umbral_Rojo_mm = 100\<rparr>]
     = Some \<lparr>Amenaza_Nivel = ''Media'', Umbral_Verde_mm = 50, Umbral_Amarillo_mm = 300, Umbral_Rojo_mm = 100\<rparr> \<and>
   calcular_nivel_alerta ''Media'' 350
     [\<lparr>Amenaza_Nivel = ''Media'', Umbral_Verde_mm = 50, Umbral_Amarillo_mm = 300, Umbral_Rojo_mm = 100\<rparr>]
     = (''ROJA'', emoji_roja, 3) \<and>
   calcular_alerta_temporal
     [\<lparr>Amenaza_Nivel = ''Media'', Umbral_Verde_mm = 50, Umbral_Amarillo_mm = 300, Umbral_Rojo_mm = 100\<rparr>]
     350 ''Media'' = ''ROJA''"
  using C1_descending_threshold_order
    [of "''Media''"
        "[\<lparr>Amenaza_Nivel = ''Media'', Umbral_Verde_mm = 50, Umbral_Amarillo_mm = 300, Umbral_Rojo_mm = 100\<rparr>]"
        "\<lparr>Amenaza_Nivel = ''Media'', Umbral_Verde_mm = 50, Umbral_Amarillo_mm = 300, Umbral_Rojo_mm = 100\<rparr>"
        350]
  by simp

text \<open>
  C7. A hazard level that names no row of the threshold matrix is evaluated as VERDE for
  every rainfall value, by both evaluators; the table evaluator returns the green emoji and
  priority 0. Both are total: no input makes them fail.
\<close>

theorem C7_unknown_level_is_green:
  "amenaza \<notin> Amenaza_Nivel ` set umbrales_df \<Longrightarrow>
     calcular_nivel_alerta amenaza v umbrales_df = (''VERDE'', emoji_verde, 0) \<and>
     calcular_alerta_temporal umbrales_df v amenaza = ''VERDE''"
  by (simp add: calcular_nivel_alerta_def calcular_alerta_temporal_def
      filter_find_None [OF find_absent])

theorem C7_unknown_level_is_green_witness:
  "''Extrema'' \<notin> Amenaza_Nivel ` set umbrales_por_defecto \<and>
   calcular_nivel_alerta ''Extrema'' 1000 umbrales_por_defecto = (''VERDE'', emoji_verde, 0) \<and>
   calcular_alerta_temporal umbrales_por_defecto 1000 ''Extrema'' = ''VERDE''"
proof -
  have h: "''Extrema'' \<notin> Amenaza_Nivel ` set umbrales_por_defecto"
    by (simp add: umbrales_por_defecto_def)
  show ?thesis
    using h C7_unknown_level_is_green [OF h, of 1000] by simp
qed

text \<open>
  C10. Two threshold matrices whose rows for the hazard level (the first row of that name
  in each, or none in both) carry the same yellow and red boundaries give the same alert
  state for every rainfall value: the green boundary is not read.
\<close>

theorem C10_green_boundary_not_read:
  "map_option (\<lambda>r. (Umbral_Amarillo_mm r, Umbral_Rojo_mm r))
       (find (\<lambda>r. Amenaza_Nivel r = amenaza) df1) =
   map_option (\<lambda>r. (Umbral_Amarillo_mm r, Umbral_Rojo_mm r))
       (find (\<lambda>r. Amenaza_Nivel r = amenaza) df2) \<Longrightarrow>
   calcular_nivel_alerta amenaza v df1 = calcular_nivel_alerta amenaza v df2 \<and>
   calcular_alerta_temporal df1 v amenaza = calcular_alerta_temporal df2 v amenaza"
proof (cases "find (\<lambda>r. Amenaza_Nivel r = amenaza) df1")
  case None
  assume eq: "map_option (\<lambda>r. (Umbral_Amarillo_mm r, Umbral_Rojo_mm r))
       (find (\<lambda>r. Amenaza_Nivel r = amenaza) df1) =
     map_option (\<lambda>r. (Umbral_Amarillo_mm r, Umbral_Rojo_mm r))
       (find (\<lambda>r. Amenaza_Nivel r = amenaza) df2)"
  with None have "find (\<lambda>r. Amenaza_Nivel r = amenaza) df2 = None" by simp
  with None show ?thesis
    by (simp add: calcular_nivel_alerta_def calcular_alerta_temporal_def filter_find_None)
next
  case (Some f1)
  assume eq: "map_option (\<lambda>r. (Umbral_Amarillo_mm r, Umbral_Rojo_mm r))
       (find (\<lambda>r. Amenaza_Nivel r = amenaza) df1) =
     map_option (\<lambda>r. (Umbral_Amarillo_mm r, Umbral_Rojo_mm r))
       (find (\<lambda>r. Amenaza_Nivel r = amenaza) df2)"
  with Some obtain f2 where f2: "find (\<lambda>r. Amenaza_Nivel r = amenaza) df2 = Some f2"
    and same: "Umbral_Amarillo_mm f1 = Umbral_Amarillo_mm f2" "Umbral_Rojo_mm f1 = Umbral_Rojo_mm f2"
    by (cases "find (\<lambda>r. Amenaza_Nivel r = amenaza) df2") auto
  show ?thesis
    by (simp add: nivel_fila [OF Some] nivel_fila [OF f2] temporal_fila [OF Some]
        temporal_fila [OF f2] same)
qed

text \<open>The built-in matrix against a copy whose green boundary for Alta is 5 instead of 80.\<close>

theorem C10_green_boundary_not_read_witness:
  "calcular_nivel_alerta ''Alta'' 110 umbrales_por_defecto =
     calcular_nivel_alerta ''Alta'' 110
       [\<lparr>Amenaza_Nivel = ''Alta'', Umbral_Verde_mm = 5, Umbral_Amarillo_mm = 100, Umbral_Rojo_mm = 120\<rparr>] \<and>
   calcular_alerta_temporal umbrales_por_defecto 110 ''Alta'' =
     calcular_alerta_temporal
       [\<lparr>Amenaza_Nivel = ''Alta'', Umbral_Verde_mm = 5, Umbral_Amarillo_mm = 100, Umbral_Rojo_mm = 120\<rparr>]
       110 ''Alta''"
proof -
  have h: "map_option (\<lambda>r. (Umbral_Amarillo_mm r, Umbral_Rojo_mm r))
       (find (\<lambda>r. Amenaza_Nivel r = ''Alta'') umbrales_por_defecto) =
     map_option (\<lambda>r. (Umbral_Amarillo_mm r, Umbral_Rojo_mm r))
       (find (\<lambda>r. Amenaza_Nivel r = ''Alta'')
          [\<lparr>Amenaza_Nivel = ''Alta'', Umbral_Verde_mm = 5, Umbral_Amarillo_mm = 100, Umbral_Rojo_mm = 120\<rparr>])"
    by (simp add: umbrales_por_defecto_def)
  show ?thesis
    using C10_green_boundary_not_read [OF h, of 110] by simp
qed

section \<open>Properties of the rolling accumulation\<close>

text \<open>The state the pass holds at entry \<open>i\<close>: the number of samples in the window and their sum.\<close>

lemma fold_add_sum:
  "fold (\<lambda>j. add_sum (v ! j)) [a..<b] (n, s) = (n + (b - a), s + (\<Sum>j = a..<b. v ! j))"
proof (induction "b - a" arbitrary: a n s)
  case 0
  then show ?case by simp
next
  case (Suc k)
  then have ab: "a < b" and k: "k = b - Suc a" by auto
  from Suc.hyps(1) [OF k] ab show ?case
    by (simp add: upt_conv_Cons sum.atLeast_Suc_lessThan)
qed

lemma fold_remove_sum:
  "fold (\<lambda>j. remove_sum (v ! j)) [a..<b] (n, s) = (n - (b - a), s - (\<Sum>j = a..<b. v ! j))"
proof (induction "b - a" arbitrary: a n s)
  case 0
  then show ?case by simp
next
  case (Suc k)
  then have ab: "a < b" and k: "k = b - Suc a" by auto
  from Suc.hyps(1) [OF k] ab show ?case
    by (simp add: upt_conv_Cons sum.atLeast_Suc_lessThan)
qed

lemma roll_step_first:
  "roll_step v window (0, 0) 0 =
     (window_end 0 - window_start window 0, \<Sum>j = window_start window 0..<window_end 0. v ! j)"
  by (simp add: roll_step_def Let_def fold_add_sum)

lemma roll_step_next:
  "roll_step v window
     (window_end (i - 1) - window_start window (i - 1),
      \<Sum>j = window_start window (i - 1)..<window_end (i - 1). v ! j) i =
   (window_end i - window_start window i, \<Sum>j = window_start window i..<window_end i. v ! j)"
proof (cases "i = 0 \<or> window_start window i \<ge> window_end (i - 1)")
  case True
  then show ?thesis
    by (simp add: roll_step_def Let_def fold_add_sum)
next
  case False
  let ?p = "window_start window (i - 1)" and ?s = "window_start window i"
  from False have i: "0 < i" and lt: "?s < i"
    by (auto simp: window_end_def)
  have le: "?p \<le> ?s"
    using i by (auto simp: window_start_def)
  have split: "(\<Sum>j = ?p..<i. v ! j) = (\<Sum>j = ?p..<?s. v ! j) + (\<Sum>j = ?s..<i. v ! j)"
    using le lt by (simp add: sum.atLeastLessThan_concat)
  have cnt: "i - ?p - (?s - ?p) + (Suc i - i) = Suc i - ?s"
    using le lt by arith
  have tot: "(\<Sum>j = ?p..<i. v ! j) - (\<Sum>j = ?p..<?s. v ! j) + (\<Sum>j = i..<Suc i. v ! j)
      = (\<Sum>j = ?s..<Suc i. v ! j)"
    using lt split by simp
  have "roll_step v window (i - ?p, \<Sum>j = ?p..<i. v ! j) i =
      (i - ?p - (?s - ?p) + (Suc i - i),
       (\<Sum>j = ?p..<i. v ! j) - (\<Sum>j = ?p..<?s. v ! j) + (\<Sum>j = i..<Suc i. v ! j))"
    using False i
    by (simp add: roll_step_def Let_def window_end_def fold_remove_sum
        fold_add_sum del: sum.op_ivl_Suc)
  then show ?thesis
    unfolding cnt tot using i by (simp add: window_end_def)
qed

lemma roll_sum_invariant:
  "roll_sum v window minp
     (window_end (i - 1) - window_start window (i - 1),
      \<Sum>j = window_start window (i - 1)..<window_end (i - 1). v ! j) [i..<n] =
   map (\<lambda>k. calc_sum minp
          (window_end k - window_start window k, \<Sum>j = window_start window k..<window_end k. v ! j))
       [i..<n]"
proof (induction "n - i" arbitrary: i)
  case 0
  then show ?case by simp
next
  case (Suc k)
  then have lt: "i < n" and k: "k = n - Suc i" by auto
  have cons: "[i..<n] = i # [Suc i..<n]"
    using lt by (simp add: upt_conv_Cons)
  show ?case
    unfolding cons using Suc.hyps(1) [OF k] roll_step_next [of v window i]
    by (simp add: Let_def del: sum.op_ivl_Suc)
qed

lemma rolling_sum_windows:
  "rolling_sum window minp v =
     map (\<lambda>k. calc_sum minp
            (window_end k - window_start window k, \<Sum>j = window_start window k..<window_end k. v ! j))
         [0..<length v]"
proof (cases "length v")
  case 0
  then show ?thesis by (simp add: rolling_sum_def)
next
  case (Suc m)
  have cons: "[0..<length v] = 0 # [Suc 0..<length v]"
    using Suc by (simp add: upt_conv_Cons del: upt_Suc)
  show ?thesis
    unfolding rolling_sum_def cons
    using roll_sum_invariant [of v window minp "Suc 0" "length v"]
    by (simp add: Let_def roll_step_first del: sum.op_ivl_Suc)
qed

lemma length_rolling_sum: "length (rolling_sum window minp v) = length v"
  by (simp add: rolling_sum_windows)

lemma precip_acum_72h_nth:
  assumes "i < length v"
  shows "precip_acum_72h v ! i = Some (\<Sum>j = (if i < 71 then 0 else i - 71)..i. v ! j)"
proof -
  have iv: "{window_start 72 i..<window_end i} = {(if i < 71 then 0 else i - 71)..i}"
    by (auto simp: window_start_def window_end_def)
  have "1 \<le> window_end i - window_start 72 i"
    by (simp add: window_start_def window_end_def)
  then show ?thesis
    using assms by (simp add: precip_acum_72h_def rolling_sum_windows iv)
qed

lemma acum_constante:
  assumes "i < n"
  shows "precip_acum_72h (replicate n c) ! i = Some (real (min (i + 1) 72) * c)"
proof -
  have "(\<Sum>j = (if i < 71 then 0 else i - 71)..i. replicate n c ! j) =
        (\<Sum>j = (if i < 71 then 0 else i - 71)..i. c)"
    using assms by (intro sum.cong) auto
  also have "\<dots> = real (min (i + 1) 72) * c"
    by (simp add: min_def)
  finally show ?thesis
    using assms by (simp add: precip_acum_72h_nth)
qed

text \<open>
  C4. With window 72 and at least one sample required, the accumulated series has the
  length of the precipitation series, and entry \<open>i\<close> is the sum of the samples
  \<open>max 0 (i - 71)\<close> through \<open>i\<close>: a number at every index (never NaN, never an error),
  the first 71 entries being sums of the \<open>i + 1\<close> samples seen so far with nothing
  padded in. For 100 hourly values of 1.0 mm the entries 0..70 are \<open>i + 1\<close> and the
  entries 71..99 are 72.
\<close>

theorem C4_rolling_partial_window:
  "length (precip_acum_72h xs) = length xs \<and>
   (\<forall>i<length xs. precip_acum_72h xs ! i = Some (\<Sum>j = (if i < 71 then 0 else i - 71)..i. xs ! j)) \<and>
   (\<forall>i<100. precip_acum_72h (replicate 100 1) ! i = Some (if i \<le> 70 then real i + 1 else 72))"
proof -
  have len: "length (precip_acum_72h xs) = length xs"
    by (simp add: precip_acum_72h_def length_rolling_sum)
  have sums: "\<forall>i<length xs. precip_acum_72h xs ! i = Some (\<Sum>j = (if i < 71 then 0 else i - 71)..i. xs ! j)"
    using precip_acum_72h_nth by blast
  have ones: "\<forall>i<100. precip_acum_72h (replicate 100 1) ! i = Some (if i \<le> 70 then real i + 1 else 72)"
    by (auto simp: acum_constante min_def)
  from len sums ones show ?thesis
    by blast
qed

theorem C4_rolling_partial_window_witness:
  "(2::nat) < length [1, 2, 4 :: real] \<and> precip_acum_72h [1, 2, 4] ! 2 = Some 7 \<and>
   (70::nat) < 100 \<and> precip_acum_72h (replicate 100 1) ! 70 = Some 71 \<and>
   (71::nat) < 100 \<and> precip_acum_72h (replicate 100 1) ! 71 = Some 72"
proof -
  note c = C4_rolling_partial_window [of "[1, 2, 4]"]
  have s: "(\<Sum>j = 0..2. [1, 2, 4 :: real] ! j) = 7"
    by (simp add: numeral_2_eq_2)
  have a: "precip_acum_72h [1, 2, 4] ! 2 = Some 7"
    using c [THEN conjunct2, THEN conjunct1, rule_format, of 2] s by simp
  have b: "precip_acum_72h (replicate 100 1) ! 70 = Some 71"
    using c [THEN conjunct2, THEN conjunct2, rule_format, of 70] by simp
  have d: "precip_acum_72h (replicate 100 1) ! 71 = Some 72"
    using c [THEN conjunct2, THEN conjunct2, rule_format, of 71] by simp
  show ?thesis
    using a b d by simp
qed

section \<open>The end-to-end scenario: 72 wet hours, then dry\<close>

lemma lluvia_escenario_nth:
  "j < 72 + m \<Longrightarrow> lluvia_escenario m ! j = (if j < 72 then 2 else 0)"
  by (simp add: lluvia_escenario_def nth_append)

lemma acum_escenario:
  assumes "i < 72 + m"
  shows "precip_acum_72h (lluvia_escenario m) ! i =
     Some (if i < 72 then 2 * (real i + 1) else if i \<le> 143 then 2 * (143 - real i) else 0)"
proof -
  let ?a = "if i < 71 then 0 else i - 71"
  have "(\<Sum>j = ?a..i. lluvia_escenario m ! j) = (\<Sum>j = ?a..i. if j < 72 then 2 else 0)"
    using assms by (intro sum.cong) (auto simp: lluvia_escenario_nth)
  also have "\<dots> = (\<Sum>j \<in> {?a..i} \<inter> {j. j < 72}. 2)"
    by (simp add: sum.If_cases)
  also have "\<dots> = 2 * real (card ({?a..i} \<inter> {j. j < 72}))"
    by simp
  also have "{?a..i} \<inter> {j. j < 72} = {?a..<min (i + 1) 72}"
    by auto
  also have "2 * real (card {?a..<min (i + 1) 72}) =
      (if i < 72 then 2 * (real i + 1) else if i \<le> 143 then 2 * (143 - real i) else 0)"
    by (auto simp: min_def)
  finally show ?thesis
    using assms by (simp add: precip_acum_72h_nth lluvia_escenario_def)
qed

lemma find_alta_defecto:
  "find (\<lambda>r. Amenaza_Nivel r = ''Alta'') umbrales_por_defecto =
     Some \<lparr>Amenaza_Nivel = ''Alta'', Umbral_Verde_mm = 80, Umbral_Amarillo_mm = 100, Umbral_Rojo_mm = 120\<rparr>"
  by (simp add: umbrales_por_defecto_def)

lemma length_alerta_escenario:
  "length (nivel_alerta_temporal umbrales_por_defecto ''Alta'' (lluvia_escenario m)) = 72 + m"
  by (simp add: nivel_alerta_temporal_def precip_acum_72h_def length_rolling_sum lluvia_escenario_def)

lemma alerta_escenario:
  assumes "i < 72 + m"
  shows "nivel_alerta_temporal umbrales_por_defecto ''Alta'' (lluvia_escenario m) ! i =
     (if i < 49 then ''VERDE'' else if i < 59 then ''AMARILLA'' else if i \<le> 83 then ''ROJA''
      else if i \<le> 93 then ''AMARILLA'' else ''VERDE'')"
proof -
  have len: "i < length (precip_acum_72h (lluvia_escenario m))"
    using assms by (simp add: precip_acum_72h_def length_rolling_sum lluvia_escenario_def)
  show ?thesis
    using assms
    by (simp add: nivel_alerta_temporal_def nth_map [OF len] acum_escenario
        temporal_fila [OF find_alta_defecto])
qed

lemma alerta_escenario_map:
  "nivel_alerta_temporal umbrales_por_defecto ''Alta'' (lluvia_escenario m) =
     map (\<lambda>i. if i < 49 then ''VERDE'' else if i < 59 then ''AMARILLA'' else if i \<le> 83 then ''ROJA''
               else if i \<le> 93 then ''AMARILLA'' else ''VERDE'') [0..<72 + m]"
  by (rule nth_equalityI) (simp_all add: length_alerta_escenario alerta_escenario del: upt_Suc)

lemma length_filter_upt: "length (filter P [0..<n]) = card {i. i < n \<and> P i}"
proof -
  have "length (filter P [0..<n]) = card (set (filter P [0..<n]))"
    by (rule distinct_card [symmetric]) simp
  also have "set (filter P [0..<n]) = {i. i < n \<and> P i}"
    by auto
  finally show ?thesis .
qed

lemma tiempo_escenario:
  "tiempo ''VERDE'' (nivel_alerta_temporal umbrales_por_defecto ''Alta'' (lluvia_escenario m)) = 49 + (m - 22)"
  "tiempo ''AMARILLA'' (nivel_alerta_temporal umbrales_por_defecto ''Alta'' (lluvia_escenario m)) = 10 + min (m - 12) 10"
  "tiempo ''ROJA'' (nivel_alerta_temporal umbrales_por_defecto ''Alta'' (lluvia_escenario m)) = 13 + min m 12"
proof -
  let ?f = "\<lambda>i::nat. if i < 49 then ''VERDE'' else if i < 59 then ''AMARILLA'' else if i \<le> 83 then ''ROJA''
               else if i \<le> 93 then ''AMARILLA'' else ''VERDE''"
  have t: "tiempo s (map ?f [0..<72 + m]) = card {i. i < 72 + m \<and> ?f i = s}" for s
    by (simp add: tiempo_def filter_map length_filter_upt comp_def del: upt_Suc)
  have v: "{i. i < 72 + m \<and> ?f i = ''VERDE''} = {0..<49} \<union> {94..<72 + m}"
    by (auto split: if_splits)
  have a: "{i. i < 72 + m \<and> ?f i = ''AMARILLA''} = {49..<59} \<union> {84..<min (72 + m) 94}"
    by (auto split: if_splits)
  have r: "{i. i < 72 + m \<and> ?f i = ''ROJA''} = {59..<min (72 + m) 84}"
    by (auto split: if_splits)
  have cv: "card ({0..<49} \<union> {94..<72 + m}) = 49 + (m - 22)"
    by (subst card_Un_disjoint) auto
  have ca: "card ({49..<59} \<union> {84..<min (72 + m) 94}) = 10 + min (m - 12) 10"
    by (subst card_Un_disjoint) auto
  have cr: "card {59..<min (72 + m) 84} = 13 + min m 12"
    by auto
  show "tiempo ''VERDE'' (nivel_alerta_temporal umbrales_por_defecto ''Alta'' (lluvia_escenario m)) = 49 + (m - 22)"
    unfolding alerta_escenario_map t v cv ..
  show "tiempo ''AMARILLA'' (nivel_alerta_temporal umbrales_por_defecto ''Alta'' (lluvia_escenario m)) = 10 + min (m - 12) 10"
    unfolding alerta_escenario_map t a ca ..
  show "tiempo ''ROJA'' (nivel_alerta_temporal umbrales_por_defecto ''Alta'' (lluvia_escenario m)) = 13 + min m 12"
    unfolding alerta_escenario_map t r cr ..
qed

lemma porcentaje_resto:
  assumes "v + a + r = n" "0 < n"
  shows "porcentaje r n = 100 - porcentaje v n - porcentaje a n"
proof -
  have "real r = real n - real v - real a"
    using assms(1) by linarith
  then have "real r / real n = 1 - real v / real n - real a / real n"
    using assms(2) by (simp add: diff_divide_distrib)
  then have "real r / real n * 100 = (1 - real v / real n - real a / real n) * 100"
    by (rule arg_cong)
  also have "\<dots> = 100 - real v / real n * 100 - real a / real n * 100"
    by (simp only: left_diff_distrib mult_1_left)
  finally show ?thesis
    by (simp only: porcentaje_def)
qed

text \<open>
  C3, as amended. Hazard level Alta of the built-in matrix (yellow 100, red 120), 2 mm in
  each of the first 72 hours and \<open>m\<close> dry hours after them; entry \<open>i\<close> is the state after
  \<open>i + 1\<close> hours. The accumulated series rises by 2 mm per hour to 144 mm at hour 72
  (entry 71), VERDE for the first 49 hours, AMARILLA from hour 50 and ROJA from hour 60.
  After hour 72 the wet samples leave the 72-sample window one by one, so the series falls
  by 2 mm per hour (\<open>2 * (143 - i)\<close> at entry \<open>i\<close>) until it is 0 from entry 143 on: it
  stays ROJA through entry 83, is AMARILLA for entries 84..93 and VERDE afterwards. The
  dwell-time statistics count at least 49 VERDE hours, at least 10 AMARILLA hours and at
  least 13 ROJA hours, so the VERDE and AMARILLA shares are above 0% and the ROJA share is
  the remainder.
\<close>

theorem C3_scenario_rises_then_falls:
  "(\<forall>i<72 + m. precip_acum_72h (lluvia_escenario m) ! i =
       Some (if i < 72 then 2 * (real i + 1) else if i \<le> 143 then 2 * (143 - real i) else 0)) \<and>
   (\<forall>i<72 + m. nivel_alerta_temporal umbrales_por_defecto ''Alta'' (lluvia_escenario m) ! i =
       (if i < 49 then ''VERDE'' else if i < 59 then ''AMARILLA'' else if i \<le> 83 then ''ROJA''
        else if i \<le> 93 then ''AMARILLA'' else ''VERDE'')) \<and>
   length (nivel_alerta_temporal umbrales_por_defecto ''Alta'' (lluvia_escenario m)) = 72 + m \<and>
   tiempo ''VERDE'' (nivel_alerta_temporal umbrales_por_defecto ''Alta'' (lluvia_escenario m)) = 49 + (m - 22) \<and>
   tiempo ''AMARILLA'' (nivel_alerta_temporal umbrales_por_defecto ''Alta'' (lluvia_escenario m)) = 10 + min (m - 12) 10 \<and>
   tiempo ''ROJA'' (nivel_alerta_temporal umbrales_por_defecto ''Alta'' (lluvia_escenario m)) = 13 + min m 12 \<and>
   0 < porcentaje (tiempo ''VERDE'' (nivel_alerta_temporal umbrales_por_defecto ''Alta'' (lluvia_escenario m))) (72 + m) \<and>
   0 < porcentaje (tiempo ''AMARILLA'' (nivel_alerta_temporal umbrales_por_defecto ''Alta'' (lluvia_escenario m))) (72 + m) \<and>
   porcentaje (tiempo ''ROJA'' (nivel_alerta_temporal umbrales_por_defecto ''Alta'' (lluvia_escenario m))) (72 + m) =
     100 - porcentaje (tiempo ''VERDE'' (nivel_alerta_temporal umbrales_por_defecto ''Alta'' (lluvia_escenario m))) (72 + m)
         - porcentaje (tiempo ''AMARILLA'' (nivel_alerta_temporal umbrales_por_defecto ''Alta'' (lluvia_escenario m))) (72 + m)"
proof -
  let ?al = "nivel_alerta_temporal umbrales_por_defecto ''Alta'' (lluvia_escenario m)"
  have total: "tiempo ''VERDE'' ?al + tiempo ''AMARILLA'' ?al + tiempo ''ROJA'' ?al = 72 + m"
    unfolding tiempo_escenario by arith
  have pos: "0 < porcentaje (tiempo ''VERDE'' ?al) (72 + m)" "0 < porcentaje (tiempo ''AMARILLA'' ?al) (72 + m)"
    unfolding tiempo_escenario by (simp_all add: porcentaje_def)
  have rest: "porcentaje (tiempo ''ROJA'' ?al) (72 + m) =
      100 - porcentaje (tiempo ''VERDE'' ?al) (72 + m) - porcentaje (tiempo ''AMARILLA'' ?al) (72 + m)"
    by (rule porcentaje_resto [OF total]) simp
  show ?thesis
    using acum_escenario [of _ m] alerta_escenario [of _ m] length_alerta_escenario [of m]
      tiempo_escenario [of m] pos rest
    by blast
qed

theorem C3_scenario_rises_then_falls_witness:
  "(71::nat) < 72 + 120 \<and> precip_acum_72h (lluvia_escenario 120) ! 71 = Some 144 \<and>
   (100::nat) < 72 + 120 \<and> precip_acum_72h (lluvia_escenario 120) ! 100 = Some 86 \<and>
   nivel_alerta_temporal umbrales_por_defecto ''Alta'' (lluvia_escenario 120) ! 100 = ''VERDE'' \<and>
   tiempo ''VERDE'' (nivel_alerta_temporal umbrales_por_defecto ''Alta'' (lluvia_escenario 120)) = 147 \<and>
   tiempo ''AMARILLA'' (nivel_alerta_temporal umbrales_por_defecto ''Alta'' (lluvia_escenario 120)) = 20 \<and>
   tiempo ''ROJA'' (nivel_alerta_temporal umbrales_por_defecto ''Alta'' (lluvia_escenario 120)) = 25"
proof -
  note c = C3_scenario_rises_then_falls [of 120]
  have a: "precip_acum_72h (lluvia_escenario 120) ! 71 = Some 144"
    using c [THEN conjunct1, rule_format, of 71] by simp
  have b: "precip_acum_72h (lluvia_escenario 120) ! 100 = Some 86"
    using c [THEN conjunct1, rule_format, of 100] by simp
  have d: "nivel_alerta_temporal umbrales_por_defecto ''Alta'' (lluvia_escenario 120) ! 100 = ''VERDE''"
    using c [THEN conjunct2, THEN conjunct1, rule_format, of 100] by simp
  show ?thesis
    using a b d c by simp
qed

text \<open>
  The scenario as the claim words it fails already with one dry hour: the entry after hour
  72 is 142 mm, not 144 mm, and 49 of the 73 hours are VERDE, not 0%.
\<close>

theorem C3_scenario_counterexample:
  "precip_acum_72h (lluvia_escenario 1) ! 71 = Some 144 \<and>
   precip_acum_72h (lluvia_escenario 1) ! 72 = Some 142 \<and>
   precip_acum_72h (lluvia_escenario 1) ! 72 \<noteq> Some 144 \<and>
   nivel_alerta_temporal umbrales_por_defecto ''Alta'' (lluvia_escenario 1) ! 0 = ''VERDE'' \<and>
   tiempo ''VERDE'' (nivel_alerta_temporal umbrales_por_defecto ''Alta'' (lluvia_escenario 1)) = 49 \<and>
   porcentaje (tiempo ''VERDE'' (nivel_alerta_temporal umbrales_por_defecto ''Alta'' (lluvia_escenario 1)))
     (length (nivel_alerta_temporal umbrales_por_defecto ''Alta'' (lluvia_escenario 1))) \<noteq> 0"
  by (simp add: acum_escenario alerta_escenario tiempo_escenario length_alerta_escenario porcentaje_def)

section \<open>Properties of the classification\<close>

lemma np_quantile_empty: "0 \<le> q \<Longrightarrow> q \<le> 1 \<Longrightarrow> np_quantile [] q = Inl IndexError"
  by (simp add: np_quantile_def)

text \<open>Linear interpolation between order statistics of a sorted list grows with the position.\<close>

lemma interpolation_mono:
  fixes s :: "real list" and h1 h2 :: real
  assumes srt: "sorted s" and n: "0 < length s"
    and h: "0 \<le> h1" "h1 \<le> h2" "h2 \<le> real (length s - 1)"
  shows "s ! nat \<lfloor>h1\<rfloor> + (h1 - real (nat \<lfloor>h1\<rfloor>)) * (s ! min (nat \<lfloor>h1\<rfloor> + 1) (length s - 1) - s ! nat \<lfloor>h1\<rfloor>)
       \<le> s ! nat \<lfloor>h2\<rfloor> + (h2 - real (nat \<lfloor>h2\<rfloor>)) * (s ! min (nat \<lfloor>h2\<rfloor> + 1) (length s - 1) - s ! nat \<lfloor>h2\<rfloor>)"
proof -
  define k1 where "k1 = nat \<lfloor>h1\<rfloor>"
  define k2 where "k2 = nat \<lfloor>h2\<rfloor>"
  define g1 where "g1 = h1 - real k1"
  define g2 where "g2 = h2 - real k2"
  define m where "m = length s - 1"
  have h2nn: "0 \<le> h2" using h by linarith
  have rk1: "real k1 = of_int \<lfloor>h1\<rfloor>" using h(1) by (simp add: k1_def)
  have rk2: "real k2 = of_int \<lfloor>h2\<rfloor>" using h2nn by (simp add: k2_def)
  have g1: "0 \<le> g1" "g1 < 1" unfolding g1_def rk1 by linarith+
  have g2: "0 \<le> g2" "g2 < 1" unfolding g2_def rk2 by linarith+
  have k12: "k1 \<le> k2"
    unfolding k1_def k2_def using h(2) by (simp add: floor_mono nat_mono)
  have "real k2 \<le> real m" using h(3) g2(1) unfolding g2_def m_def by linarith
  then have k2m: "k2 \<le> m" by simp
  have mlt: "m < length s" using n by (simp add: m_def)
  have d1: "s ! k1 \<le> s ! min (k1 + 1) m"
    using srt k12 k2m mlt by (intro sorted_nth_mono) auto
  have d2: "s ! k2 \<le> s ! min (k2 + 1) m"
    using srt k2m mlt by (intro sorted_nth_mono) auto
  have "s ! k1 + g1 * (s ! min (k1 + 1) m - s ! k1) \<le> s ! k2 + g2 * (s ! min (k2 + 1) m - s ! k2)"
  proof (cases "k1 = k2")
    case True
    have "g1 \<le> g2" using h(2) True by (simp add: g1_def g2_def)
    then have "g1 * (s ! min (k2 + 1) m - s ! k2) \<le> g2 * (s ! min (k2 + 1) m - s ! k2)"
      using d2 by (intro mult_right_mono) auto
    then show ?thesis using True by simp
  next
    case False
    then have lt: "k1 + 1 \<le> k2" using k12 by simp
    have "g1 * (s ! min (k1 + 1) m - s ! k1) \<le> 1 * (s ! min (k1 + 1) m - s ! k1)"
      using g1 d1 by (intro mult_right_mono) auto
    then have "s ! k1 + g1 * (s ! min (k1 + 1) m - s ! k1) \<le> s ! min (k1 + 1) m"
      by simp
    also have "\<dots> \<le> s ! k2"
      using srt lt k2m mlt by (intro sorted_nth_mono) auto
    also have "\<dots> \<le> s ! k2 + g2 * (s ! min (k2 + 1) m - s ! k2)"
      using g2 d2 by simp
    finally show ?thesis .
  qed
  then show ?thesis
    by (simp only: k1_def k2_def g1_def g2_def m_def)
qed

lemma np_quantile_mono:
  assumes "np_quantile arr p = Inr lo" "np_quantile arr q = Inr hi" "0 \<le> p" "p \<le> q" "q \<le> 1"
  shows "lo \<le> hi"
proof -
  have rng: "\<not> (p < 0 \<or> p > 1)" "\<not> (q < 0 \<or> q > 1)"
    using assms(3-5) by auto
  have ne: "arr \<noteq> []"
    using assms(1) rng by (auto simp: np_quantile_def)
  let ?s = "sort arr" and ?m = "real (length arr - 1)"
  have len: "length ?s = length arr" by simp
  have h: "0 \<le> p * ?m" "p * ?m \<le> q * ?m" "q * ?m \<le> real (length ?s - 1)"
    using assms(3-5) by (simp_all add: mult_right_mono mult_left_le_one_le)
  have n: "0 < length ?s" using ne by simp
  from interpolation_mono [OF sorted_sort n h]
  show ?thesis
    using assms(1,2) ne by (simp add: np_quantile_def Let_def rng)
qed

lemma clasificar_empty:
  assumes "filter (\<lambda>x. Some x \<noteq> nodata src) (concat (band1 src)) = []"
  shows "clasificar_raster_amenaza src = Inl IndexError"
  using assms by (simp add: clasificar_raster_amenaza_def np_quantile_empty)

lemma clasificar_Inr:
  assumes "clasificar_raster_amenaza src = Inr (out, lo, hi)"
  shows "\<exists>nd. nodata src = Some nd \<and>
     np_quantile (filter (\<lambda>x. x \<noteq> nd) (concat (band1 src))) 0.33 = Inr lo \<and>
     np_quantile (filter (\<lambda>x. x \<noteq> nd) (concat (band1 src))) 0.66 = Inr hi \<and>
     out = \<lparr>band1 = map (map (clasificar_celda nd lo hi)) (band1 src), nodata = Some 0,
            transform = transform src, crs = crs src\<rparr>"
  using assms
  by (auto simp: clasificar_raster_amenaza_def Let_def split: sum.splits option.splits)

lemma clasificar_umbrales_ordenados:
  assumes "clasificar_raster_amenaza src = Inr (out, lo, hi)"
  shows "lo \<le> hi"
proof -
  from clasificar_Inr [OF assms] obtain nd where
    "np_quantile (filter (\<lambda>x. x \<noteq> nd) (concat (band1 src))) 0.33 = Inr lo"
    "np_quantile (filter (\<lambda>x. x \<noteq> nd) (concat (band1 src))) 0.66 = Inr hi"
    by blast
  then show ?thesis
    by (rule np_quantile_mono) simp_all
qed

lemma clasificar_nth:
  assumes "clasificar_raster_amenaza src = Inr (out, lo, hi)" "nodata src = Some nd"
    "r < length (band1 src)" "c < length (band1 src ! r)"
  shows "band1 out ! r ! c = clasificar_celda nd lo hi (band1 src ! r ! c)"
  using clasificar_Inr [OF assms(1)] assms(2-4) by auto

text \<open>
  C5, as amended. The thresholds of a classification are ordered, low at most high. A
  cell whose value equals the low threshold is never classified 2 or 3, and is classified 1
  when its value lies above the NoData sentinel. A cell whose value equals the high
  threshold is classified 2, not 3, when the two thresholds differ, whatever the sentinel.
  When the two thresholds coincide the Medium band is empty: a cell equal to the high
  threshold is then equal to the low one and is classified as such, never 2.
\<close>

theorem C5_threshold_value_in_lower_band:
  "clasificar_raster_amenaza src = Inr (out, lowCut, highCut) \<Longrightarrow>
   nodata src = Some nd \<Longrightarrow> r < length (band1 src) \<Longrightarrow> c < length (band1 src ! r) \<Longrightarrow>
     lowCut \<le> highCut \<and>
     (band1 src ! r ! c = lowCut \<longrightarrow>
        band1 out ! r ! c \<noteq> 2 \<and> band1 out ! r ! c \<noteq> 3 \<and>
        (band1 src ! r ! c > nd \<longrightarrow> band1 out ! r ! c = 1)) \<and>
     (band1 src ! r ! c = highCut \<and> lowCut < highCut \<longrightarrow> band1 out ! r ! c = 2) \<and>
     (band1 src ! r ! c = highCut \<and> lowCut = highCut \<longrightarrow>
        band1 out ! r ! c \<noteq> 2 \<and> band1 out ! r ! c \<noteq> 3 \<and>
        (band1 src ! r ! c > nd \<longrightarrow> band1 out ! r ! c = 1))"
proof -
  assume cl: "clasificar_raster_amenaza src = Inr (out, lowCut, highCut)"
    and nd: "nodata src = Some nd" and r: "r < length (band1 src)"
    and c: "c < length (band1 src ! r)"
  have ord: "lowCut \<le> highCut"
    using cl by (rule clasificar_umbrales_ordenados)
  have cell: "band1 out ! r ! c = clasificar_celda nd lowCut highCut (band1 src ! r ! c)"
    using cl nd r c by (rule clasificar_nth)
  show ?thesis
    using ord by (auto simp: cell clasificar_celda_def)
qed

text \<open>
  A row 10, 20, 20 with sentinel 255, above the data: the thresholds are 16.6 and 20, and
  the cell 20, equal to the high threshold, is classified 2. A row 10, 10, 20 with sentinel
  -1: the thresholds are 10 and 13.2, and the cell 10, equal to the low threshold and above
  the sentinel, is classified 1.
\<close>

lemma clasificar_10_20_20:
  "clasificar_raster_amenaza \<lparr>band1 = [[10, 20, 20]], nodata = Some 255, transform = t, crs = z\<rparr> =
     Inr (\<lparr>band1 = [[0, 2, 2]], nodata = Some 0, transform = t, crs = z\<rparr>, 166 / 10, 20)"
  by (simp add: clasificar_raster_amenaza_def np_quantile_def clasificar_celda_def Let_def)

lemma clasificar_10_10_20:
  "clasificar_raster_amenaza \<lparr>band1 = [[10, 10, 20]], nodata = Some (-1), transform = t, crs = z\<rparr> =
     Inr (\<lparr>band1 = [[1, 1, 3]], nodata = Some 0, transform = t, crs = z\<rparr>, 10, 132 / 10)"
  by (simp add: clasificar_raster_amenaza_def np_quantile_def clasificar_celda_def Let_def)

lemma clasificar_5_5:
  "clasificar_raster_amenaza \<lparr>band1 = [[5, 5]], nodata = Some (-1), transform = t, crs = z\<rparr> =
     Inr (\<lparr>band1 = [[1, 1]], nodata = Some 0, transform = t, crs = z\<rparr>, 5, 5)"
  by (simp add: clasificar_raster_amenaza_def np_quantile_def clasificar_celda_def Let_def)

theorem C5_threshold_value_in_lower_band_witness:
  "clasificar_raster_amenaza \<lparr>band1 = [[10, 20, 20]], nodata = Some 255, transform = pixel_unidad, crs = ''EPSG:3116''\<rparr> =
     Inr (\<lparr>band1 = [[0, 2, 2]], nodata = Some 0, transform = pixel_unidad, crs = ''EPSG:3116''\<rparr>, 166 / 10, 20) \<and>
   [[10, 20, 20 :: real]] ! 0 ! 1 = 20 \<and> (166 / 10 :: real) < 20 \<and> [[0, 2, 2 :: 8 word]] ! 0 ! 1 = 2 \<and>
   clasificar_raster_amenaza \<lparr>band1 = [[10, 10, 20]], nodata = Some (-1), transform = pixel_unidad, crs = ''EPSG:3116''\<rparr> =
     Inr (\<lparr>band1 = [[1, 1, 3]], nodata = Some 0, transform = pixel_unidad, crs = ''EPSG:3116''\<rparr>, 10, 132 / 10) \<and>
   [[10, 10, 20 :: real]] ! 0 ! 1 = 10 \<and> (-1 :: real) < 10 \<and> [[1, 1, 3 :: 8 word]] ! 0 ! 1 = 1"
proof -
  let ?g = "\<lparr>band1 = [[10, 20, 20]], nodata = Some 255, transform = pixel_unidad, crs = ''EPSG:3116''\<rparr>"
  let ?o = "\<lparr>band1 = [[0, 2, 2 :: 8 word]], nodata = Some 0, transform = pixel_unidad, crs = ''EPSG:3116''\<rparr>"
  let ?g' = "\<lparr>band1 = [[10, 10, 20]], nodata = Some (-1), transform = pixel_unidad, crs = ''EPSG:3116''\<rparr>"
  let ?o' = "\<lparr>band1 = [[1, 1, 3 :: 8 word]], nodata = Some 0, transform = pixel_unidad, crs = ''EPSG:3116''\<rparr>"
  have a: "clasificar_raster_amenaza ?g = Inr (?o, 166 / 10, 20)"
    by (rule clasificar_10_20_20)
  have b: "clasificar_raster_amenaza ?g' = Inr (?o', 10, 132 / 10)"
    by (rule clasificar_10_10_20)
  have "band1 ?o ! 0 ! 1 = 2"
    using C5_threshold_value_in_lower_band [OF a, of 255 0 1] by simp
  moreover have "band1 ?o' ! 0 ! 1 = 1"
    using C5_threshold_value_in_lower_band [OF b, of "-1" 0 1] by simp
  ultimately show ?thesis
    using a b by simp
qed

text \<open>
  On a uniform grid both thresholds equal the one value, 5 here, and the cells, equal to
  the high threshold, are classified 1 and not 2.
\<close>

theorem C5_degenerate_counterexample:
  "clasificar_raster_amenaza \<lparr>band1 = [[5, 5]], nodata = Some (-1), transform = pixel_unidad, crs = ''EPSG:3116''\<rparr> =
     Inr (\<lparr>band1 = [[1, 1]], nodata = Some 0, transform = pixel_unidad, crs = ''EPSG:3116''\<rparr>, 5, 5) \<and>
   [[1, 1 :: 8 word]] ! 0 ! 0 \<noteq> 2"
  by (simp add: clasificar_5_5)

text \<open>
  C6, as amended. When no cell of the grid differs from the NoData sentinel, the
  classification fails with the \<open>IndexError\<close> of the quantile of an empty selection: no
  classified raster and no thresholds are produced, and the pipeline ends with the same
  error.
\<close>

theorem C6_no_valid_cells_fails:
  "\<forall>x \<in> set (concat (band1 src)). Some x = nodata src \<Longrightarrow>
     clasificar_raster_amenaza src = Inl IndexError \<and>
     pipeline_completo src w csv = Inl IndexError"
proof -
  assume "\<forall>x \<in> set (concat (band1 src)). Some x = nodata src"
  then have "filter (\<lambda>x. Some x \<noteq> nodata src) (concat (band1 src)) = []"
    by (simp add: filter_empty_conv)
  then have "clasificar_raster_amenaza src = Inl IndexError"
    by (rule clasificar_empty)
  then show ?thesis
    by (simp add: pipeline_completo_def)
qed

theorem C6_no_valid_cells_fails_witness:
  "clasificar_raster_amenaza
     \<lparr>band1 = [[-9999, -9999], [-9999, -9999]], nodata = Some (-9999), transform = pixel_unidad, crs = ''EPSG:3116''\<rparr>
     = Inl IndexError \<and>
   pipeline_completo
     \<lparr>band1 = [[-9999, -9999], [-9999, -9999]], nodata = Some (-9999), transform = pixel_unidad, crs = ''EPSG:3116''\<rparr>
     \<lparr>dst_transform = pixel_unidad, dst_width = 2, dst_height = 2, nearest = (\<lambda>row col. (int row, int col))\<rparr>
     None
     = Inl IndexError"
proof -
  let ?g = "\<lparr>band1 = [[-9999, -9999], [-9999, -9999]], nodata = Some (-9999), transform = pixel_unidad, crs = ''EPSG:3116''\<rparr>"
  have h: "\<forall>x \<in> set (concat (band1 ?g)). Some x = nodata ?g"
    by simp
  show ?thesis
    using C6_no_valid_cells_fails [OF h] by blast
qed

text \<open>
  On a grid of four NoData cells the classification ends in \<open>IndexError\<close>, not in the
  \<open>EmptyDistributionError\<close> of the design document.
\<close>

theorem C6_error_class_counterexample:
  "clasificar_raster_amenaza
     \<lparr>band1 = [[-9999, -9999], [-9999, -9999]], nodata = Some (-9999), transform = pixel_unidad, crs = ''EPSG:3116''\<rparr>
     = Inl IndexError \<and>
   clasificar_raster_amenaza
     \<lparr>band1 = [[-9999, -9999], [-9999, -9999]], nodata = Some (-9999), transform = pixel_unidad, crs = ''EPSG:3116''\<rparr>
     \<noteq> Inl EmptyDistributionError"
  by (simp add: clasificar_empty)

text \<open>
  Where the sentinel lies below every other cell value, the guard \<open>x > NoData_value\<close>
  selects exactly the valid cells and both thresholds lie above the sentinel: every NoData
  cell is classified 0 and every other cell 1, 2 or 3.
\<close>

lemma np_quantile_above:
  assumes q: "np_quantile arr q = Inr v" and b: "\<forall>x \<in> set arr. b < x"
  shows "b < v"
proof -
  from q have rng: "0 \<le> q" "q \<le> 1" and ne: "arr \<noteq> []"
    by (auto simp: np_quantile_def split: if_splits)
  define s where "s = sort arr"
  define m where "m = length arr - 1"
  define k where "k = nat \<lfloor>q * real m\<rfloor>"
  have v: "v = s ! k + (q * real m - real k) * (s ! min (k + 1) m - s ! k)"
    using q rng ne by (simp add: np_quantile_def Let_def s_def m_def k_def)
  have h: "0 \<le> q * real m" "q * real m \<le> real m"
    using rng by (simp_all add: mult_left_le_one_le)
  have rk: "real k = of_int \<lfloor>q * real m\<rfloor>"
    using h(1) by (simp add: k_def)
  have g: "0 \<le> q * real m - real k"
    unfolding rk by linarith
  have "real k \<le> real m"
    unfolding rk using h(2) by linarith
  then have km: "k \<le> m" by simp
  have len: "m < length s"
    using ne by (simp add: s_def m_def)
  have d: "s ! k \<le> s ! min (k + 1) m"
    unfolding s_def using km len by (intro sorted_nth_mono) (auto simp: s_def)
  have "s ! k \<in> set arr"
    using km len by (metis s_def nth_mem set_sort le_less_trans)
  then have "b < s ! k" using b by blast
  moreover have "0 \<le> (q * real m - real k) * (s ! min (k + 1) m - s ! k)"
    using g d by simp
  ultimately show ?thesis
    unfolding v by linarith
qed

lemma clasificar_sentinel_below:
  assumes cl: "clasificar_raster_amenaza src = Inr (out, lo, hi)" and nd: "nodata src = Some nd"
    and low: "\<forall>x \<in> set (concat (band1 src)). nd \<le> x"
    and r: "r < length (band1 src)" and c: "c < length (band1 src ! r)"
  shows "(band1 src ! r ! c = nd \<longrightarrow> band1 out ! r ! c = 0) \<and>
         (band1 src ! r ! c \<noteq> nd \<longrightarrow> band1 out ! r ! c \<in> {1, 2, 3})"
proof -
  from clasificar_Inr [OF cl] nd
  have qlo: "np_quantile (filter (\<lambda>x. x \<noteq> nd) (concat (band1 src))) 0.33 = Inr lo"
    by auto
  have "\<forall>x \<in> set (filter (\<lambda>x. x \<noteq> nd) (concat (band1 src))). nd < x"
    using low by (fastforce simp: less_le)
  with qlo have lo: "nd < lo"
    by (rule np_quantile_above)
  have ord: "lo \<le> hi"
    using cl by (rule clasificar_umbrales_ordenados)
  have "band1 src ! r \<in> set (band1 src)" "band1 src ! r ! c \<in> set (band1 src ! r)"
    using r c by simp_all
  then have "band1 src ! r ! c \<in> set (concat (band1 src))"
    by auto
  then have ge: "nd \<le> band1 src ! r ! c"
    using low by blast
  have cell: "band1 out ! r ! c = clasificar_celda nd lo hi (band1 src ! r ! c)"
    using cl nd r c by (rule clasificar_nth)
  show ?thesis
    using lo ord ge by (auto simp: cell clasificar_celda_def)
qed

text \<open>
  C2 at a grid whose sentinel, 255, lies above the data 10, 20, 30: the thresholds are 16.6
  and 23.2; the valid cell 10 is classified 0 and the NoData cell 255 is classified 3.
\<close>

theorem C2_sentinel_above_data:
  "clasificar_raster_amenaza \<lparr>band1 = [[10, 20], [30, 255]], nodata = Some 255, transform = pixel_unidad, crs = ''EPSG:3116''\<rparr> =
     Inr (\<lparr>band1 = [[0, 2], [3, 3]], nodata = Some 0, transform = pixel_unidad, crs = ''EPSG:3116''\<rparr>, 166 / 10, 232 / 10)"
  by (simp add: clasificar_raster_amenaza_def np_quantile_def clasificar_celda_def Let_def)

section \<open>Properties of the reprojection\<close>

lemma celda_in_source:
  assumes "rectangular g" "celda g row col = Some v"
  shows "v \<in> set (concat (band1 g))"
proof -
  from assms(2) have r: "nat row < length (band1 g)" and c: "nat col < width g"
    and v: "v = band1 g ! nat row ! nat col"
    by (auto simp: celda_def height_def split: if_splits)
  have fila: "band1 g ! nat row \<in> set (band1 g)"
    using r by simp
  then have "length (band1 g ! nat row) = width g"
    using assms(1) by (simp add: rectangular_def list_all_iff)
  then have "v \<in> set (band1 g ! nat row)"
    using c v by simp
  then show ?thesis
    using fila by auto
qed

lemma reproject_values:
  assumes "rectangular src" "v \<in> set (concat (reproject src w))"
  shows "v \<in> set (concat (band1 src)) \<or> v = nodata_or_0 src"
proof -
  from assms(2) obtain row col where
    "v = (case celda src (fst (nearest w row col)) (snd (nearest w row col)) of
            Some u \<Rightarrow> u | None \<Rightarrow> nodata_or_0 src)"
    by (auto simp: reproject_def)
  then show ?thesis
    using celda_in_source [OF assms(1)] by (auto split: option.splits)
qed

text \<open>
  C9, as amended. Every cell of the reprojected grid holds the value of a cell of the
  source grid or the NoData fill (the source's sentinel, 0 when it declares none), so a
  value other than the fill appears in the output only if it appears in the source; the
  NoData sentinel of the output is the source's, unchanged, and the output is in EPSG:4326
  with the destination transform.
\<close>

theorem C9_nearest_keeps_source_values:
  "rectangular src \<Longrightarrow>
     (\<forall>v \<in> set (concat (band1 (reproyectar_raster_wgs84 w src))).
         v \<in> set (concat (band1 src)) \<or> v = nodata_or_0 src) \<and>
     nodata (reproyectar_raster_wgs84 w src) = nodata src \<and>
     crs (reproyectar_raster_wgs84 w src) = ''EPSG:4326'' \<and>
     transform (reproyectar_raster_wgs84 w src) = dst_transform w"
  using reproject_values [of src _ w] by (simp add: reproyectar_raster_wgs84_def)

text \<open>
  A 2 by 2 grid of classes 1, 2, 2, 3 with sentinel 0, warped onto a 2 by 3 grid whose
  third column lies beyond the source: that column holds the fill.
\<close>

theorem C9_nearest_keeps_source_values_witness:
  "band1 (reproyectar_raster_wgs84
       \<lparr>dst_transform = pixel_unidad, dst_width = 3, dst_height = 2, nearest = (\<lambda>row col. (int row, int col))\<rparr>
       \<lparr>band1 = [[1, 2], [2, 3 :: 8 word]], nodata = Some 0, transform = pixel_unidad, crs = ''EPSG:3116''\<rparr>)
     = [[1, 2, 0], [2, 3, 0]] \<and>
   nodata (reproyectar_raster_wgs84
       \<lparr>dst_transform = pixel_unidad, dst_width = 3, dst_height = 2, nearest = (\<lambda>row col. (int row, int col))\<rparr>
       \<lparr>band1 = [[1, 2], [2, 3 :: 8 word]], nodata = Some 0, transform = pixel_unidad, crs = ''EPSG:3116''\<rparr>)
     = Some 0"
proof -
  let ?w = "\<lparr>dst_transform = pixel_unidad, dst_width = 3, dst_height = 2, nearest = (\<lambda>row col. (int row, int col))\<rparr>"
  let ?g = "\<lparr>band1 = [[1, 2], [2, 3 :: 8 word]], nodata = Some 0, transform = pixel_unidad, crs = ''EPSG:3116''\<rparr>"
  have r: "rectangular ?g"
    by (simp add: rectangular_def width_def)
  have b: "band1 (reproyectar_raster_wgs84 ?w ?g) = [[1, 2, 0], [2, 3, 0]]"
    by (simp add: reproyectar_raster_wgs84_def reproject_def celda_def height_def width_def
        nodata_or_0_def upt_rec [of _ "numeral _"])
  show ?thesis
    using C9_nearest_keeps_source_values [OF r, of ?w] b by simp
qed

text \<open>
  A uniform grid of the single class 2, warped onto a grid with a column beyond the
  source: the output holds the value 0, which no source cell holds.
\<close>

theorem C9_fill_counterexample:
  "band1 (reproyectar_raster_wgs84
       \<lparr>dst_transform = pixel_unidad, dst_width = 2, dst_height = 1, nearest = (\<lambda>row col. (int row, int col))\<rparr>
       \<lparr>band1 = [[2 :: 8 word]], nodata = Some 0, transform = pixel_unidad, crs = ''EPSG:3116''\<rparr>)
     = [[2, 0]] \<and>
   (0 :: 8 word) \<notin> set (concat [[2]])"
  by (simp add: reproyectar_raster_wgs84_def reproject_def celda_def height_def width_def
      nodata_or_0_def upt_rec [of _ "numeral _"])

section \<open>Properties of the point sampling\<close>

lemma rowcol_north_up:
  assumes "north_up t"
  shows "rowcol t x y = Inr (\<lfloor>(y - coef_f t) / coef_e t\<rfloor>, \<lfloor>(x - coef_c t) / coef_a t\<rfloor>)"
proof -
  from assms have z: "coef_b t = 0" "coef_d t = 0" and nz: "coef_a t \<noteq> 0" "coef_e t \<noteq> 0"
    by (auto simp: north_up_def)
  show ?thesis
    using nz by (simp add: rowcol_def z Let_def)
qed

lemma sample_never_fails:
  assumes "north_up (transform g)"
  shows "\<exists>v. sample g xy = Inr v"
  by (simp add: sample_def rowcol_north_up [OF assms])

lemma sample_outside:
  assumes nu: "north_up (transform g)" and out: "fuera_de_extension g xy"
  shows "sample g xy = Inr (nodata_or_0 g)"
proof -
  let ?t = "transform g"
  from nu have a: "coef_a ?t > 0" and e: "coef_e ?t < 0"
    by (auto simp: north_up_def)
  let ?fcol = "(fst xy - coef_c ?t) / coef_a ?t" and ?frow = "(snd xy - coef_f ?t) / coef_e ?t"
  from out consider
      (left) "fst xy < coef_c ?t"
    | (right) "fst xy > coef_c ?t + coef_a ?t * real (width g)"
    | (top) "snd xy > coef_f ?t"
    | (bottom) "snd xy < coef_f ?t + coef_e ?t * real (height g)"
    by (auto simp: fuera_de_extension_def Let_def)
  then have "\<lfloor>?frow\<rfloor> < 0 \<or> \<lfloor>?fcol\<rfloor> < 0 \<or> \<lfloor>?frow\<rfloor> \<ge> int (height g) \<or> \<lfloor>?fcol\<rfloor> \<ge> int (width g)"
  proof cases
    case left
    then have "?fcol < 0" using a by (simp add: divide_less_0_iff)
    then show ?thesis by (simp add: floor_less_iff)
  next
    case right
    then have "real (width g) < ?fcol" using a by (simp add: pos_less_divide_eq mult.commute)
    then have "real (width g) \<le> ?fcol" by simp
    then have "int (width g) \<le> \<lfloor>?fcol\<rfloor>" by (simp add: le_floor_iff)
    then show ?thesis by simp
  next
    case top
    then have "?frow < 0" using e by (simp add: divide_less_0_iff)
    then show ?thesis by (simp add: floor_less_iff)
  next
    case bottom
    then have "real (height g) < ?frow" using e by (simp add: neg_less_divide_eq mult.commute)
    then have "real (height g) \<le> ?frow" by simp
    then have "int (height g) \<le> \<lfloor>?frow\<rfloor>" by (simp add: le_floor_iff)
    then show ?thesis by simp
  qed
  then show ?thesis
    by (auto simp: sample_def rowcol_north_up [OF nu])
qed

text \<open>
  C8. A tower whose \<open>(Longitud, Latitud)\<close> lies outside the extent of a north-up grid is
  given the grid's NoData sentinel (0 when the grid declares none) by the sampling, with no
  error, and its row of the output table carries that value and its label. The sentinel of
  a classified grid is 0, and the label of 0 is \<open>Sin Datos\<close>.
\<close>

theorem C8_outside_extent_is_sin_datos:
  "north_up (transform g) \<Longrightarrow> fuera_de_extension g (Longitud t, Latitud t) \<Longrightarrow>
     sample g (Longitud t, Latitud t) = Inr (nodata_or_0 g) \<and>
     extraer_valores_torres (Some [t]) g = Inr [(t, nodata_or_0 g, mapa_amenaza (nodata_or_0 g))] \<and>
     (nodata g = Some 0 \<longrightarrow>
        sample g (Longitud t, Latitud t) = Inr 0 \<and>
        extraer_valores_torres (Some [t]) g = Inr [(t, 0, Some ''Sin Datos'')])"
proof -
  assume nu: "north_up (transform g)" and out: "fuera_de_extension g (Longitud t, Latitud t)"
  have s: "sample g (Longitud t, Latitud t) = Inr (nodata_or_0 g)"
    using nu out by (rule sample_outside)
  then have x: "extraer_valores_torres (Some [t]) g = Inr [(t, nodata_or_0 g, mapa_amenaza (nodata_or_0 g))]"
    by (simp add: extraer_valores_torres_def)
  have z: "nodata g = Some 0 \<longrightarrow> nodata_or_0 g = 0"
    by (simp add: nodata_or_0_def)
  have l: "mapa_amenaza 0 = Some ''Sin Datos''"
    by (simp add: mapa_amenaza_def)
  from s x z l show ?thesis
    by auto
qed

text \<open>
  The third example tower, at longitude -70.825931, against a 2 by 2 grid of 0.1 degree
  cells that spans longitudes -72.3 to -72.1 and latitudes 7.0 to 7.2.
\<close>

theorem C8_outside_extent_is_sin_datos_witness:
  "extraer_valores_torres
     (Some [\<lparr>ID_Torre = ''TORRE_003'', Nombre = ''Torre Este'', Latitud = 6.356094, Longitud = -70.825931\<rparr>])
     \<lparr>band1 = [[1, 2], [3, 0]], nodata = Some 0,
      transform = \<lparr>coef_a = 0.1, coef_b = 0, coef_c = -72.3, coef_d = 0, coef_e = -0.1, coef_f = 7.2\<rparr>,
      crs = ''EPSG:4326''\<rparr>
   = Inr [(\<lparr>ID_Torre = ''TORRE_003'', Nombre = ''Torre Este'', Latitud = 6.356094, Longitud = -70.825931\<rparr>,
           0, Some ''Sin Datos'')]"
proof -
  let ?g = "\<lparr>band1 = [[1, 2], [3, 0 :: 8 word]], nodata = Some 0,
      transform = \<lparr>coef_a = 0.1, coef_b = 0, coef_c = -72.3, coef_d = 0, coef_e = -0.1, coef_f = 7.2\<rparr>,
      crs = ''EPSG:4326''\<rparr>"
  let ?t = "\<lparr>ID_Torre = ''TORRE_003'', Nombre = ''Torre Este'', Latitud = 6.356094, Longitud = -70.825931\<rparr>"
  have nu: "north_up (transform ?g)"
    by (simp add: north_up_def)
  have out: "fuera_de_extension ?g (Longitud ?t, Latitud ?t)"
    by (simp add: fuera_de_extension_def width_def height_def)
  have "nodata ?g = Some 0 \<longrightarrow>
      sample ?g (Longitud ?t, Latitud ?t) = Inr 0 \<and>
      extraer_valores_torres (Some [?t]) ?g = Inr [(?t, 0, Some ''Sin Datos'')]"
    using C8_outside_extent_is_sin_datos [OF nu out] by blast
  then show ?thesis
    by simp
qed

text \<open>
  The grid the pipeline samples is the classified grid after reprojection; its sentinel
  is 0.
\<close>

lemma pipeline_sentinel:
  assumes "clasificar_raster_amenaza src = Inr (clasificado, lo, hi)"
  shows "nodata (reproyectar_raster_wgs84 w clasificado) = Some 0"
  using clasificar_Inr [OF assms] by (auto simp: reproyectar_raster_wgs84_def)

end
